theory Spec2Isabelle
  imports Complex_Main "HOL-Library.AList" "HOL-Library.Log_Nat"
begin

section \<open>Common Python values\<close>

text \<open>
  A Python \<open>float\<close> is an IEEE binary64 value. A finite one is represented by
  its exact rational value; the two infinities and NaN are separate constructors.
  The two zeros \<open>0.0\<close> and \<open>-0.0\<close> are identified: they compare equal, and no
  operation used by the three programs (comparison, subtraction, multiplication, division,
  which raises on a zero divisor, and \<open>round\<close>) tells them apart other than by
  the sign of a zero result.
\<close>

datatype pyfloat = Fin rat | PInf | NInf | NaN

text \<open>
  The exceptions the modelled code can raise. \<open>IntegrityError\<close> is
  \<open>sqlite3.IntegrityError\<close>; \<open>EOFError\<close> is what \<open>input()\<close>
  raises when the input has ended.
\<close>

datatype exn =
    ValueError | KeyError | ZeroDivisionError | TypeError | OverflowError | EOFError
  | IntegrityError

text \<open>
  Rounding of an exact result to binary64, half to even: 53 significant bits, least
  exponent -1022 (below it the spacing stays 2 to the power -1074), and overflow to an
  infinity when the rounded magnitude reaches 2 to the power 1024. For \<open>a > 0\<close>,
  \<open>exponent a\<close> is the \<open>e\<close> with \<open>pow2 e \<le> a < pow2 (e + 1)\<close>.
\<close>

definition pow2 :: "int \<Rightarrow> rat" where
  "pow2 e = (if 0 \<le> e then 2 ^ nat e else 1 / 2 ^ nat (- e))"

definition round_half_even :: "rat \<Rightarrow> int" where
  "round_half_even x =
     (let n = \<lfloor>x\<rfloor>; d = x - of_int n
      in if d < 1 / 2 then n else if 1 / 2 < d then n + 1 else if even n then n else n + 1)"

definition exponent :: "rat \<Rightarrow> int" where
  "exponent a = (if 1 \<le> a then bitlen \<lfloor>a\<rfloor> - 1 else - bitlen (\<lceil>1 / a\<rceil> - 1))"

definition fl :: "rat \<Rightarrow> pyfloat" where
  "fl x =
     (if x = 0 then Fin 0
      else
        let a = \<bar>x\<bar>;
            ulp = pow2 (max (exponent a) (- 1022) - 52);
            r = of_int (round_half_even (a / ulp)) * ulp
        in if pow2 1024 \<le> r then (if 0 < x then PInf else NInf)
           else Fin (if 0 < x then r else - r))"

text \<open>
  Comparison and arithmetic of floats as Python evaluates them: every comparison with NaN
  is false; \<open>-\<close> and \<open>*\<close> follow IEEE 754; \<open>/\<close> raises
  \<open>ZeroDivisionError\<close> on a zero divisor before anything else.
\<close>

fun fle :: "pyfloat \<Rightarrow> pyfloat \<Rightarrow> bool" where
  "fle NaN _ = False"
| "fle _ NaN = False"
| "fle NInf _ = True"
| "fle _ PInf = True"
| "fle (Fin x) (Fin y) = (x \<le> y)"
| "fle _ _ = False"

fun flt :: "pyfloat \<Rightarrow> pyfloat \<Rightarrow> bool" where
  "flt NaN _ = False"
| "flt _ NaN = False"
| "flt PInf _ = False"
| "flt _ NInf = False"
| "flt (Fin x) (Fin y) = (x < y)"
| "flt _ _ = True"

fun feq :: "pyfloat \<Rightarrow> pyfloat \<Rightarrow> bool" where
  "feq NaN _ = False"
| "feq _ NaN = False"
| "feq a b = (a = b)"

fun fneg :: "pyfloat \<Rightarrow> pyfloat" where
  "fneg (Fin x) = Fin (- x)"
| "fneg PInf = NInf"
| "fneg NInf = PInf"
| "fneg NaN = NaN"

fun fsub :: "pyfloat \<Rightarrow> pyfloat \<Rightarrow> pyfloat" where
  "fsub NaN _ = NaN"
| "fsub _ NaN = NaN"
| "fsub (Fin x) (Fin y) = fl (x - y)"
| "fsub PInf PInf = NaN"
| "fsub NInf NInf = NaN"
| "fsub PInf _ = PInf"
| "fsub NInf _ = NInf"
| "fsub (Fin x) b = fneg b"

fun fmul :: "pyfloat \<Rightarrow> pyfloat \<Rightarrow> pyfloat" where
  "fmul NaN _ = NaN"
| "fmul _ NaN = NaN"
| "fmul (Fin x) (Fin y) = fl (x * y)"
| "fmul (Fin x) b = (if x = 0 then NaN else if 0 < x then b else fneg b)"
| "fmul a (Fin y) = (if y = 0 then NaN else if 0 < y then a else fneg a)"
| "fmul a b = (if a = b then PInf else NInf)"

fun fdiv :: "pyfloat \<Rightarrow> pyfloat \<Rightarrow> exn + pyfloat" where
  "fdiv a (Fin y) =
     (if y = 0 then Inl ZeroDivisionError
      else Inr (case a of
                  Fin x \<Rightarrow> fl (x / y)
                | NaN \<Rightarrow> NaN
                | _ \<Rightarrow> if 0 < y then a else fneg a))"
| "fdiv a NaN = Inr NaN"
| "fdiv (Fin x) _ = Inr (Fin 0)"
| "fdiv _ _ = Inr NaN"

text \<open>
  \<open>round(x, 2)\<close> on a float: infinities and NaN are returned as they are; a finite
  value is rounded, half to even on its exact value, to two decimals, and the decimal result
  is converted back to the nearest float.
\<close>

definition round2 :: "pyfloat \<Rightarrow> pyfloat" where
  "round2 x = (case x of Fin q \<Rightarrow> fl (of_int (round_half_even (q * 100)) / 100) | _ \<Rightarrow> x)"

text \<open>
  Python's \<open>int(s)\<close> and \<open>float(s)\<close> on a string of ASCII characters;
  \<open>None\<close> is \<open>ValueError\<close>. Surrounding whitespace (space, tab, line
  feed, vertical tab, form feed, carriage return) is dropped, a sign may come first, and
  underscores may stand between two digits. (The limit on the number of
  digits of \<open>int\<close> in recent versions is left out.) The programs are modelled with
  the two conversions as parameters \<open>int_of\<close> and \<open>float_of\<close>; these
  definitions are what the parameters stand for in the examples.
\<close>

definition is_space :: "char \<Rightarrow> bool" where
  "is_space c \<longleftrightarrow> (of_char c :: nat) \<in> {9, 10, 11, 12, 13, 32}"

definition strip :: "string \<Rightarrow> string" where
  "strip s = rev (dropWhile is_space (rev (dropWhile is_space s)))"

definition is_digit :: "char \<Rightarrow> bool" where
  "is_digit c \<longleftrightarrow> 48 \<le> (of_char c :: nat) \<and> (of_char c :: nat) \<le> 57"

definition digit_value :: "char \<Rightarrow> nat" where
  "digit_value c = of_char c - 48"

definition lower :: "char \<Rightarrow> char" where
  "lower c = (if 65 \<le> (of_char c :: nat) \<and> (of_char c :: nat) \<le> 90
              then char_of (of_char c + 32 :: nat) else c)"

fun digitpart :: "string \<Rightarrow> bool" where
  "digitpart [] = False"
| "digitpart [c] = is_digit c"
| "digitpart (c # d # cs) =
     (is_digit c \<and> (if d = CHR ''_'' then digitpart cs else digitpart (d # cs)))"

definition digits_value :: "string \<Rightarrow> nat" where
  "digits_value s = foldl (\<lambda>n c. 10 * n + digit_value c) 0 (filter is_digit s)"

definition unsign :: "string \<Rightarrow> bool \<times> string" where
  "unsign s = (case s of
       [] \<Rightarrow> (False, [])
     | c # cs \<Rightarrow> if c = CHR ''-'' then (True, cs) else if c = CHR ''+'' then (False, cs)
                else (False, s))"

definition py_int :: "string \<Rightarrow> int option" where
  "py_int s =
     (let (neg, body) = unsign (strip s)
      in if digitpart body
         then Some (if neg then - int (digits_value body) else int (digits_value body))
         else None)"

definition decimal :: "string \<Rightarrow> rat option" where
  "decimal body =
     (let m = takeWhile (\<lambda>c. lower c \<noteq> CHR ''e'') body;
          ex = dropWhile (\<lambda>c. lower c \<noteq> CHR ''e'') body;
          ip = takeWhile (\<lambda>c. c \<noteq> CHR ''.'') m;
          dot = dropWhile (\<lambda>c. c \<noteq> CHR ''.'') m;
          fp = tl dot;
          mantissa_ok =
            (if dot = [] then digitpart ip
             else (ip = [] \<or> digitpart ip) \<and> (fp = [] \<or> digitpart fp) \<and> \<not> (ip = [] \<and> fp = []));
          (eneg, edigits) = unsign (tl ex);
          exponent_ok = (ex = [] \<or> digitpart edigits);
          e = (if ex = [] then 0
               else if eneg then - int (digits_value edigits) else int (digits_value edigits));
          k = e - int (length (filter is_digit fp));
          n = of_nat (digits_value (ip @ fp))
      in if mantissa_ok \<and> exponent_ok
         then Some (if 0 \<le> k then n * 10 ^ nat k else n / 10 ^ nat (- k))
         else None)"

definition py_float :: "string \<Rightarrow> pyfloat option" where
  "py_float s =
     (let (neg, body) = unsign (strip s); w = map lower body
      in if w = ''inf'' \<or> w = ''infinity'' then Some (if neg then NInf else PInf)
         else if w = ''nan'' then Some NaN
         else case decimal body of
                None \<Rightarrow> None
              | Some q \<Rightarrow> Some (fl (if neg then - q else q)))"



text \<open>
  Console input. The lines typed at the prompts are a list; an action consumes lines from
  its front and ends with a value or with an exception. \<open>input\<close> is
  \<open>input(...)\<close>, \<open>convert int_of\<close> and \<open>convert float_of\<close> are
  \<open>int(...)\<close> and \<open>float(...)\<close> on a string, and
  \<open>except_ValueError m h\<close> is \<open>try: m except ValueError: h\<close>.
\<close>

type_synonym 'a io = "string list \<Rightarrow> string list \<times> (exn + 'a)"

definition return :: "'a \<Rightarrow> 'a io" where
  "return x ins = (ins, Inr x)"

definition raise :: "exn \<Rightarrow> 'a io" where
  "raise e ins = (ins, Inl e)"

definition bind :: "'a io \<Rightarrow> ('a \<Rightarrow> 'b io) \<Rightarrow> 'b io" where
  "bind m f ins = (case m ins of (ins', Inl e) \<Rightarrow> (ins', Inl e) | (ins', Inr x) \<Rightarrow> f x ins')"

definition input :: "string io" where
  "input ins = (case ins of [] \<Rightarrow> ([], Inl EOFError) | l # ls \<Rightarrow> (ls, Inr l))"

definition convert :: "(string \<Rightarrow> 'a option) \<Rightarrow> string \<Rightarrow> 'a io" where
  "convert f x = (case f x of None \<Rightarrow> raise ValueError | Some v \<Rightarrow> return v)"



text \<open>An action never gives lines back: the input only gets shorter.\<close>

lemma input_shorter: "input ins = (ins', Inr x) \<Longrightarrow> length ins' < length ins"
  by (auto simp: input_def split: list.splits)










section \<open>Airline system (Hash Hackers.py)\<close>

text \<open>
  A Python \<open>dict\<close> is an association list with distinct keys, in insertion order:
  \<open>d[k] = v\<close> is \<open>AList.update k v d\<close> (an existing key keeps its place, a new
  key goes last), \<open>del d[k]\<close> is \<open>AList.delete k d\<close>, \<open>k in d\<close> is
  \<open>map_of d k \<noteq> None\<close> and \<open>len(d)\<close> is \<open>length d\<close>.

  A flight is the inner dict with the four fixed keys that \<open>add_flight\<close> creates.
\<close>

record flight =
  destination :: string
  seats :: int
  available_seats :: int
  price :: pyfloat

record booking =
  passenger_name :: string
  flight_no :: string

type_synonym flight_store = "(string \<times> flight) list"
type_synonym booking_store = "(int \<times> booking) list"

text \<open>What a method prints (the formatted text itself is not modelled).\<close>

datatype message =
    Flight_already_exists
  | Flight_added string string pyfloat
  | Invalid_seats_or_price
  | Flight_not_found
  | Price_updated string pyfloat
  | Invalid_price
  | Invalid_flight_number
  | No_seats_available
  | Ticket_booked int pyfloat
  | Invalid_ticket_id
  | Booking_canceled
  | No_flights_available
  | Flights_listing "(string \<times> flight) list"
  | Search_results string "(string \<times> flight) list"
  | Booking_details int booking flight
  | Summary_report "(string \<times> flight) list" "(int \<times> booking) list"
  | Exiting_the_system
  | Invalid_choice
  | Invalid_input

text \<open>
  \<open>FlightManagement.add_flight\<close>. The only caller, \<open>menu\<close>, passes
  \<open>seats\<close> as an \<open>int\<close> and \<open>price\<close> as a \<open>float\<close>; on these
  \<open>int(seats)\<close> and \<open>float(price)\<close> are the identity and the format
  \<open>{price:.2f}\<close> is defined, so the \<open>except ValueError\<close> branch is not
  taken.
\<close>

definition add_flight ::
  "string \<Rightarrow> string \<Rightarrow> int \<Rightarrow> pyfloat \<Rightarrow> flight_store \<Rightarrow> message \<times> flight_store" where
  "add_flight fno dest n p fs =
     (if map_of fs fno \<noteq> None then (Flight_already_exists, fs)
      else (Flight_added fno dest p,
            AList.update fno
              \<lparr>destination = dest, seats = n, available_seats = n, price = p\<rparr> fs))"

text \<open>\<open>FlightManagement.update_price\<close>, called with a \<open>float\<close>.\<close>

definition update_price ::
  "string \<Rightarrow> pyfloat \<Rightarrow> flight_store \<Rightarrow> message \<times> flight_store" where
  "update_price fno p fs =
     (case map_of fs fno of
        None \<Rightarrow> (Flight_not_found, fs)
      | Some f \<Rightarrow> (Price_updated fno p, AList.update fno (f\<lparr>price := p\<rparr>) fs))"

text \<open>
  \<open>BookingManagement.book_ticket\<close>. The local \<open>flight\<close> aliases the inner dict
  of the store, so \<open>flight['available_seats'] -= 1\<close> updates the store's entry.
\<close>

definition book_ticket ::
  "string \<Rightarrow> string \<Rightarrow> flight_store \<Rightarrow> booking_store
     \<Rightarrow> message \<times> flight_store \<times> booking_store" where
  "book_ticket name fno fs bs =
     (case map_of fs fno of
        None \<Rightarrow> (Invalid_flight_number, fs, bs)
      | Some f \<Rightarrow>
          if available_seats f \<le> 0 then (No_seats_available, fs, bs)
          else
            let ticket_id = int (length bs) + 1 in
            (Ticket_booked ticket_id (price f),
             AList.update fno (f\<lparr>available_seats := available_seats f - 1\<rparr>) fs,
             AList.update ticket_id \<lparr>passenger_name = name, flight_no = fno\<rparr> bs))"

text \<open>
  \<open>BookingManagement.cancel_booking\<close>. \<open>flights[flight_no]\<close> raises
  \<open>KeyError\<close> when the booked flight is not in the flight store; nothing has been
  changed at that point.
\<close>

definition cancel_booking ::
  "int \<Rightarrow> flight_store \<Rightarrow> booking_store \<Rightarrow> exn + message \<times> flight_store \<times> booking_store" where
  "cancel_booking ticket_id fs bs =
     (case map_of bs ticket_id of
        None \<Rightarrow> Inr (Invalid_ticket_id, fs, bs)
      | Some b \<Rightarrow>
          (case map_of fs (flight_no b) of
             None \<Rightarrow> Inl KeyError
           | Some f \<Rightarrow>
               Inr (Booking_canceled,
                    AList.update (flight_no b) (f\<lparr>available_seats := available_seats f + 1\<rparr>) fs,
                    AList.delete ticket_id bs)))"


text \<open>
  \<open>AirlineManagementSystem\<close> holds both stores; its \<open>menu\<close> passes
  \<open>self.flights\<close> to the booking methods.
\<close>

record system =
  flights :: flight_store
  bookings :: booking_store

definition init :: system where
  "init = \<lparr>flights = [], bookings = []\<rparr>"

text \<open>
  The four state-changing menu actions with their arguments as \<open>menu\<close> passes them,
  and a run of a sequence of them; an exception that leaves a method ends the run.
\<close>

datatype operation =
    Add_flight string string int pyfloat
  | Update_price string pyfloat
  | Book_ticket string string
  | Cancel_booking int

fun apply_operation :: "operation \<Rightarrow> system \<Rightarrow> exn + system" where
  "apply_operation (Add_flight fno dest n p) s =
     Inr (s\<lparr>flights := snd (add_flight fno dest n p (flights s))\<rparr>)"
| "apply_operation (Update_price fno p) s =
     Inr (s\<lparr>flights := snd (update_price fno p (flights s))\<rparr>)"
| "apply_operation (Book_ticket name fno) s =
     (case book_ticket name fno (flights s) (bookings s) of
        (m, fs, bs) \<Rightarrow> Inr \<lparr>flights = fs, bookings = bs\<rparr>)"
| "apply_operation (Cancel_booking ticket_id) s =
     (case cancel_booking ticket_id (flights s) (bookings s) of
        Inl e \<Rightarrow> Inl e
      | Inr (m, fs, bs) \<Rightarrow> Inr \<lparr>flights = fs, bookings = bs\<rparr>)"

fun run :: "operation list \<Rightarrow> system \<Rightarrow> exn + system" where
  "run [] s = Inr s"
| "run (op # ops) s =
     (case apply_operation op s of Inl e \<Rightarrow> Inl e | Inr s' \<Rightarrow> run ops s')"

text \<open>The number of bookings in the store that are for flight \<open>k\<close>.\<close>

definition booked :: "string \<Rightarrow> booking_store \<Rightarrow> int" where
  "booked k bs = int (length (filter (\<lambda>tb. flight_no (snd tb) = k) bs))"

text \<open>
  The invariant of the two stores: every booking is for a flight of the flight store, and
  for every flight the available seats and the bookings for it fit into its seats; the
  available seats are not negative unless the flight was created with negative seats.
\<close>

definition seats_inv :: "system \<Rightarrow> bool" where
  "seats_inv s \<longleftrightarrow>
     (\<forall>tb \<in> set (bookings s). map_of (flights s) (flight_no (snd tb)) \<noteq> None) \<and>
     (\<forall>k f. map_of (flights s) k = Some f \<longrightarrow>
        available_seats f + booked k (bookings s) \<le> seats f \<and>
        (0 \<le> seats f \<longrightarrow> 0 \<le> available_seats f))"












text \<open>Example records.\<close>

abbreviation delhi :: "int \<Rightarrow> flight" where
  "delhi n \<equiv> \<lparr>destination = ''Delhi'', seats = 3, available_seats = n, price = Fin 50\<rparr>"

abbreviation ticket :: "string \<Rightarrow> booking" where
  "ticket name \<equiv> \<lparr>passenger_name = name, flight_no = ''AI101''\<rparr>"


section \<open>Health log (Health_checkup.py)\<close>

text \<open>\<open>calc_bmi\<close> and \<open>bmi_category\<close>, on floats.\<close>

definition calc_bmi :: "pyfloat \<Rightarrow> pyfloat \<Rightarrow> exn + pyfloat" where
  "calc_bmi weight_kg height_cm =
     (if fle height_cm (Fin 0) then Inr (Fin 0)
      else case fdiv height_cm (Fin 100) of
             Inl e \<Rightarrow> Inl e
           | Inr h_m \<Rightarrow>
               (case fdiv weight_kg (fmul h_m h_m) of
                  Inl e \<Rightarrow> Inl e
                | Inr bmi \<Rightarrow> Inr (round2 bmi)))"

definition bmi_category :: "pyfloat \<Rightarrow> string" where
  "bmi_category bmi =
     (if feq bmi (Fin 0) then ''unknown''
      else if flt bmi (Fin (37 / 2)) then ''Underweight''
      else if flt bmi (Fin 25) then ''Normal''
      else if flt bmi (Fin 30) then ''Overweight''
      else ''Obese'')"

text \<open>
  The eleven answers typed into \<open>add_entry_interactive\<close>, each after
  \<open>.strip()\<close>, and the \<open>entry\<close> dict built from them. A value that is
  \<open>None\<close> in the dict is \<open>None\<close> here; \<open>bmi\<close> is
  \<open>None\<close> and \<open>bmi_cat\<close> (the key \<open>bmi_category\<close>) is empty
  when the source stores the empty string.
\<close>

record answers =
  date_in :: string
  age_in :: string
  sex_in :: string
  weight_in :: string
  height_in :: string
  temp_in :: string
  hr_in :: string
  bp_sys_in :: string
  bp_dia_in :: string
  bg_in :: string
  notes_in :: string

record entry =
  date :: string
  age :: "int option"
  sex :: string
  weight_kg :: "pyfloat option"
  height_cm :: "pyfloat option"
  temp_c :: "pyfloat option"
  hr_bpm :: "int option"
  bp_systolic :: "int option"
  bp_diastolic :: "int option"
  blood_glucose_mg_dl :: "pyfloat option"
  notes_txt :: string
  bmi :: "pyfloat option"
  bmi_cat :: string

text \<open>The warnings of \<open>flag_vitals\<close>, one constructor per message.\<close>

datatype warning =
    Fever pyfloat
  | Low_temperature pyfloat
  | Low_resting_HR int
  | High_resting_HR int
  | Hypertensive_crisis int int
  | High_BP int int
  | Low_BP int int
  | Very_high_blood_glucose pyfloat
  | High_fasting_blood_glucose pyfloat
  | Underweight
  | Overweight
  | Obese

definition flag_vitals :: "entry \<Rightarrow> warning list" where
  "flag_vitals e =
     (case temp_c e of
        None \<Rightarrow> []
      | Some t \<Rightarrow> if fle (Fin 38) t then [Fever t]
                  else if flt t (Fin 35) then [Low_temperature t] else [])
     @ (case hr_bpm e of
          None \<Rightarrow> []
        | Some hr \<Rightarrow> if hr < 50 then [Low_resting_HR hr]
                     else if 120 < hr then [High_resting_HR hr] else [])
     @ (case (bp_systolic e, bp_diastolic e) of
          (Some sys, Some dia) \<Rightarrow>
            if 180 \<le> sys \<or> 120 \<le> dia then [Hypertensive_crisis sys dia]
            else if 140 \<le> sys \<or> 90 \<le> dia then [High_BP sys dia]
            else if sys < 90 \<or> dia < 60 then [Low_BP sys dia] else []
        | _ \<Rightarrow> [])
     @ (case blood_glucose_mg_dl e of
          None \<Rightarrow> []
        | Some bg \<Rightarrow> if fle (Fin 200) bg then [Very_high_blood_glucose bg]
                     else if fle (Fin 126) bg then [High_fasting_blood_glucose bg] else [])
     @ (if bmi_cat e = ''Underweight'' then [Underweight]
        else if bmi_cat e = ''Overweight'' then [Overweight]
        else if bmi_cat e = ''Obese'' then [Obese] else [])"

text \<open>
  The local converters of \<open>add_entry_interactive\<close>: the bare \<open>except\<close>
  turns every failure of the conversion into \<open>None\<close>.
\<close>

definition to_float_or_none :: "(string \<Rightarrow> pyfloat option) \<Rightarrow> string \<Rightarrow> pyfloat option" where
  "to_float_or_none float_of x = (if x \<noteq> [] then float_of x else None)"

definition to_int_or_none :: "(string \<Rightarrow> int option) \<Rightarrow> string \<Rightarrow> int option" where
  "to_int_or_none int_of x = (if x \<noteq> [] then int_of x else None)"

text \<open>
  \<open>add_entry_interactive\<close>: builds the entry, computes the BMI fields when weight and
  height are both present, appends the row to the log (the CSV file, here the list of the
  entries written) and returns the warnings it prints. \<open>today\<close> is
  \<open>datetime.date.today().isoformat()\<close>. A \<open>ZeroDivisionError\<close> of
  \<open>calc_bmi\<close> leaves the function before the row is written.
\<close>

definition add_entry_interactive ::
  "(string \<Rightarrow> int option) \<Rightarrow> (string \<Rightarrow> pyfloat option) \<Rightarrow> string \<Rightarrow> answers \<Rightarrow> entry list
     \<Rightarrow> exn + entry list \<times> warning list" where
  "add_entry_interactive int_of float_of today a rows =
     (let e = \<lparr>date = (if date_in a = [] then today else date_in a),
                age = to_int_or_none int_of (age_in a),
                sex = sex_in a,
                weight_kg = to_float_or_none float_of (weight_in a),
                height_cm = to_float_or_none float_of (height_in a),
                temp_c = to_float_or_none float_of (temp_in a),
                hr_bpm = to_int_or_none int_of (hr_in a),
                bp_systolic = to_int_or_none int_of (bp_sys_in a),
                bp_diastolic = to_int_or_none int_of (bp_dia_in a),
                blood_glucose_mg_dl = to_float_or_none float_of (bg_in a),
                notes_txt = notes_in a,
                bmi = None,
                bmi_cat = []\<rparr>
      in case (weight_kg e, height_cm e) of
           (Some w, Some h) \<Rightarrow>
             (case calc_bmi w h of
                Inl x \<Rightarrow> Inl x
              | Inr b \<Rightarrow>
                  let e' = e\<lparr>bmi := Some b, bmi_cat := bmi_category b\<rparr>
                  in Inr (rows @ [e'], flag_vitals e'))
         | _ \<Rightarrow> Inr (rows @ [e], flag_vitals e))"


section \<open>Loan system (Bank_Loan.py)\<close>

text \<open>
  The two tables, as lists of rows in the order of insertion. The columns \<open>id\<close> are
  \<open>cust_id\<close> and \<open>loan_id\<close>, \<open>term\<close> is \<open>term_months\<close>. A
  \<open>REAL\<close> column holds a float or \<open>NULL\<close> (\<open>None\<close>).
\<close>

record customer =
  cust_id :: int
  cust_name :: string
  cust_email :: string
  cust_phone :: string

record loan =
  loan_id :: int
  customer_id :: int
  amount :: "pyfloat option"
  interest_rate :: "pyfloat option"
  term_months :: int
  status :: string
  balance :: "pyfloat option"

record db =
  customers :: "customer list"
  loans :: "loan list"

text \<open>
  Binding a Python float to a statement parameter: SQLite stores NaN as \<open>NULL\<close>.
  \<open>next_id\<close> is the key \<open>AUTOINCREMENT\<close> gives the next row of a table from
  which no row was ever deleted (the program deletes none).
\<close>

definition sql_real :: "pyfloat \<Rightarrow> pyfloat option" where
  "sql_real x = (if x = NaN then None else Some x)"


text \<open>What the program prints.\<close>

datatype loan_message =
    Customer_added
  | Customer_not_found
  | Loan_application_submitted
  | Loan_approved
  | Loan_rejected
  | Loan_details "(loan \<times> customer) list"
  | Payment_successful pyfloat
  | Loan_not_found
  | Loan_exiting
  | Loan_invalid_choice



text \<open>
  \<open>approve_loan\<close> and \<open>reject_loan\<close>: one \<open>UPDATE ... WHERE id=?\<close>
  with the text typed as the parameter. \<open>id_eq given k\<close> is the database's comparison
  of that text with the integer key \<open>k\<close>; it is a parameter of the model.
\<close>

definition approve_loan :: "(string \<Rightarrow> int \<Rightarrow> bool) \<Rightarrow> db \<Rightarrow> (db \<times> loan_message) io" where
  "approve_loan id_eq d =
     bind input (\<lambda>given.
       return
         (d\<lparr>loans := map (\<lambda>l. if id_eq given (loan_id l) then l\<lparr>status := ''Approved''\<rparr> else l)
                         (loans d)\<rparr>,
          Loan_approved))"

definition reject_loan :: "(string \<Rightarrow> int \<Rightarrow> bool) \<Rightarrow> db \<Rightarrow> (db \<times> loan_message) io" where
  "reject_loan id_eq d =
     bind input (\<lambda>given.
       return
         (d\<lparr>loans := map (\<lambda>l. if id_eq given (loan_id l) then l\<lparr>status := ''Rejected''\<rparr> else l)
                         (loans d)\<rparr>,
          Loan_rejected))"


text \<open>
  \<open>repay_loan\<close>: the payment is converted before the loan is looked up;
  \<open>loan[0]\<close> is the balance of the first row found, and \<open>None - payment\<close>
  raises \<open>TypeError\<close>. The \<open>UPDATE\<close> writes the new balance (the integer 0
  is stored as 0.0 in the \<open>REAL\<close> column) to the rows with that id.
\<close>

definition repay_loan ::
  "(string \<Rightarrow> pyfloat option) \<Rightarrow> (string \<Rightarrow> int \<Rightarrow> bool) \<Rightarrow> db \<Rightarrow> (db \<times> loan_message) io" where
  "repay_loan float_of id_eq d =
     bind input (\<lambda>given.
     bind (bind input (convert float_of)) (\<lambda>payment.
       case find (\<lambda>l. id_eq given (loan_id l)) (loans d) of
         None \<Rightarrow> return (d, Loan_not_found)
       | Some l \<Rightarrow>
           (case balance l of
              None \<Rightarrow> raise TypeError
            | Some b \<Rightarrow>
                let new_balance = fsub b payment;
                    new_balance = (if flt new_balance (Fin 0) then Fin 0 else new_balance)
                in return
                     (d\<lparr>loans := map (\<lambda>l. if id_eq given (loan_id l)
                                           then l\<lparr>balance := sql_real new_balance\<rparr> else l)
                                     (loans d)\<rparr>,
                      Payment_successful new_balance))))"












text \<open>
  For the examples, the database's comparison \<open>id = ?\<close> of a text parameter with an
  integer key. A text that is a numeric literal (blanks around it, a sign, digits with an
  optional fraction and an optional exponent, no underscores) is converted to a number: an
  integer literal to its value, any other literal to the nearest float; it equals the key
  when that number is the key. Any other text equals no key.
\<close>

definition sqlite_numeric :: "string \<Rightarrow> (bool \<times> rat) option" where
  "sqlite_numeric s =
     (let (neg, body) = unsign (strip s)
      in if CHR ''_'' \<in> set body then None
         else case decimal body of
                None \<Rightarrow> None
              | Some q \<Rightarrow> Some (list_all is_digit body, if neg then - q else q))"

definition text_equals_id :: "string \<Rightarrow> int \<Rightarrow> bool" where
  "text_equals_id s k \<longleftrightarrow>
     (case sqlite_numeric s of
        None \<Rightarrow> False
      | Some (integer_literal, q) \<Rightarrow>
          if integer_literal then q = of_int k else fl q = Fin (of_int k))"

text \<open>A loan row for the examples.\<close>

abbreviation loan1 :: "string \<Rightarrow> pyfloat option \<Rightarrow> loan" where
  "loan1 st b \<equiv> \<lparr>loan_id = 1, customer_id = 1, amount = Some (Fin 100),
                  interest_rate = Some (Fin 5), term_months = 12, status = st, balance = b\<rparr>"







section \<open>Airline system: rejected operations\<close>

text \<open>
  C5. Booking on a flight whose \<open>available_seats\<close> is 0 is rejected: the error is
  reported, and the flight store (so the seat count, which stays 0) and the booking store are
  returned unchanged.
\<close>

theorem book_ticket_no_seats:
  assumes "map_of fs fno = Some f" and "available_seats f = 0"
  shows "book_ticket name fno fs bs = (No_seats_available, fs, bs)"
  using assms by (simp add: book_ticket_def)

theorem book_ticket_no_seats_witness:
  "map_of [(''AI101'', \<lparr>destination = ''Delhi'', seats = 1, available_seats = 0, price = Fin 50\<rparr>)]
      ''AI101''
     = Some \<lparr>destination = ''Delhi'', seats = 1, available_seats = 0, price = Fin 50\<rparr>
   \<and> available_seats \<lparr>destination = ''Delhi'', seats = 1, available_seats = 0, price = Fin 50\<rparr> = 0
   \<and> book_ticket ''Bob'' ''AI101''
        [(''AI101'', \<lparr>destination = ''Delhi'', seats = 1, available_seats = 0, price = Fin 50\<rparr>)]
        [(1, \<lparr>passenger_name = ''Alice'', flight_no = ''AI101''\<rparr>)]
     = (No_seats_available,
        [(''AI101'', \<lparr>destination = ''Delhi'', seats = 1, available_seats = 0, price = Fin 50\<rparr>)],
        [(1, \<lparr>passenger_name = ''Alice'', flight_no = ''AI101''\<rparr>)])"
  using book_ticket_no_seats
    [of "[(''AI101'', \<lparr>destination = ''Delhi'', seats = 1, available_seats = 0, price = Fin 50\<rparr>)]"
        "''AI101''"
        "\<lparr>destination = ''Delhi'', seats = 1, available_seats = 0, price = Fin 50\<rparr>"
        "''Bob''" "[(1, \<lparr>passenger_name = ''Alice'', flight_no = ''AI101''\<rparr>)]"]
  by simp

text \<open>
  C6. \<open>add_flight\<close> with a flight number that is already in the store is rejected:
  whatever the other arguments, the store (the existing record and every other entry) is
  returned unchanged.
\<close>

theorem add_flight_duplicate:
  assumes "map_of fs fno = Some f"
  shows "add_flight fno dest n p fs = (Flight_already_exists, fs)"
  using assms by (simp add: add_flight_def)

theorem add_flight_duplicate_witness:
  "map_of [(''AI101'', \<lparr>destination = ''Delhi'', seats = 100, available_seats = 99, price = Fin 50\<rparr>)]
      ''AI101''
     = Some \<lparr>destination = ''Delhi'', seats = 100, available_seats = 99, price = Fin 50\<rparr>
   \<and> add_flight ''AI101'' ''Goa'' 7 (Fin 1)
        [(''AI101'', \<lparr>destination = ''Delhi'', seats = 100, available_seats = 99, price = Fin 50\<rparr>)]
     = (Flight_already_exists,
        [(''AI101'', \<lparr>destination = ''Delhi'', seats = 100, available_seats = 99, price = Fin 50\<rparr>)])"
  using add_flight_duplicate
    [of "[(''AI101'', \<lparr>destination = ''Delhi'', seats = 100, available_seats = 99, price = Fin 50\<rparr>)]"
        "''AI101''"
        "\<lparr>destination = ''Delhi'', seats = 100, available_seats = 99, price = Fin 50\<rparr>"
        "''Goa''" 7 "Fin 1"]
  by simp

section \<open>Airline system: seat bounds\<close>

lemma filter_update_le:
  "length (filter P (AList.update k v al)) \<le> length (filter P al) + (if P (k, v) then 1 else 0)"
  by (induction al) auto

lemma filter_delete_mono:
  "length (filter P (AList.delete k al)) \<le> length (filter P al)"
  by (induction al) auto

lemma filter_delete_le:
  "map_of al k = Some v \<Longrightarrow>
   length (filter P (AList.delete k al)) + (if P (k, v) then 1 else 0) \<le> length (filter P al)"
proof (induction al)
  case Nil
  then show ?case by simp
next
  case (Cons a al)
  show ?case
  proof (cases "fst a = k")
    case True
    with Cons.prems have "a = (k, v)" by (cases a) simp
    with filter_delete_mono [of P k al] show ?thesis by simp
  next
    case False
    with Cons show ?thesis by (cases a) auto
  qed
qed

lemma booked_update:
  "booked k (AList.update t \<lparr>passenger_name = name, flight_no = fno\<rparr> bs)
     \<le> booked k bs + (if fno = k then 1 else 0)"
  using filter_update_le [of "\<lambda>tb. flight_no (snd tb) = k" t "\<lparr>passenger_name = name, flight_no = fno\<rparr>" bs]
  by (simp add: booked_def split: if_splits)

lemma booked_delete:
  "map_of bs t = Some b \<Longrightarrow>
   booked k (AList.delete t bs) + (if flight_no b = k then 1 else 0) \<le> booked k bs"
  using filter_delete_le [of bs t b "\<lambda>tb. flight_no (snd tb) = k"]
  by (simp add: booked_def split: if_splits)

lemma booked_none:
  "\<forall>tb \<in> set bs. flight_no (snd tb) \<noteq> k \<Longrightarrow> booked k bs = 0"
  by (simp add: booked_def)

lemma set_update_subset: "set (AList.update k v al) \<subseteq> insert (k, v) (set al)"
  by (induction al) auto

lemma set_delete_subset: "set (AList.delete k al) \<subseteq> set al"
  by (induction al) auto

lemma seats_inv_fields:
  "seats_inv \<lparr>flights = flights s, bookings = bookings s\<rparr> = seats_inv s"
  by (simp add: seats_inv_def)

lemma seats_inv_init: "seats_inv init"
  by (simp add: seats_inv_def init_def booked_def)

lemma seats_inv_add_flight:
  assumes "seats_inv s"
  shows "seats_inv (s\<lparr>flights := snd (add_flight fno dest n p (flights s))\<rparr>)"
proof (cases "map_of (flights s) fno")
  case (Some f)
  with assms show ?thesis by (simp add: add_flight_def)
next
  case None
  with assms have "\<forall>tb \<in> set (bookings s). flight_no (snd tb) \<noteq> fno"
    by (auto simp: seats_inv_def)
  then have "booked fno (bookings s) = 0" by (rule booked_none)
  with assms None show ?thesis
    by (auto simp: seats_inv_def add_flight_def AList.update_conv')
qed

lemma seats_inv_update_price:
  assumes "seats_inv s"
  shows "seats_inv (s\<lparr>flights := snd (update_price fno p (flights s))\<rparr>)"
  using assms
  by (auto simp: seats_inv_def update_price_def AList.update_conv' split: option.splits)

lemma seats_inv_book_ticket:
  assumes "seats_inv s" and "book_ticket name fno (flights s) (bookings s) = (m, fs, bs)"
  shows "seats_inv \<lparr>flights = fs, bookings = bs\<rparr>"
proof (cases "map_of (flights s) fno")
  case None
  with assms show ?thesis by (auto simp: book_ticket_def seats_inv_fields)
next
  case (Some f)
  show ?thesis
  proof (cases "available_seats f \<le> 0")
    case True
    with assms Some show ?thesis by (auto simp: book_ticket_def seats_inv_fields)
  next
    case False
    let ?t = "int (length (bookings s)) + 1"
    let ?b = "\<lparr>passenger_name = name, flight_no = fno\<rparr>"
    from assms(2) Some False
    have fs: "fs = AList.update fno (f\<lparr>available_seats := available_seats f - 1\<rparr>) (flights s)"
      and bs: "bs = AList.update ?t ?b (bookings s)"
      by (simp_all add: book_ticket_def Let_def)
    have refs: "\<forall>tb \<in> set bs. map_of fs (flight_no (snd tb)) \<noteq> None"
    proof
      fix tb assume "tb \<in> set bs"
      with set_update_subset [of ?t ?b "bookings s"] bs
      have "tb = (?t, ?b) \<or> tb \<in> set (bookings s)" by auto
      with assms(1) Some show "map_of fs (flight_no (snd tb)) \<noteq> None"
        by (auto simp: fs seats_inv_def AList.update_conv')
    qed
    have bounds: "available_seats g + booked k bs \<le> seats g \<and> (0 \<le> seats g \<longrightarrow> 0 \<le> available_seats g)"
      if g: "map_of fs k = Some g" for k g
    proof (cases "k = fno")
      case True
      with g have g': "g = f\<lparr>available_seats := available_seats f - 1\<rparr>"
        by (simp add: fs AList.update_conv')
      from assms(1) Some have "available_seats f + booked fno (bookings s) \<le> seats f"
        by (simp add: seats_inv_def)
      with booked_update [of fno ?t name fno "bookings s"] False True show ?thesis
        by (simp add: g' bs)
    next
      case False
      with g have "map_of (flights s) k = Some g" by (simp add: fs AList.update_conv')
      with assms(1) have "available_seats g + booked k (bookings s) \<le> seats g"
        and "0 \<le> seats g \<longrightarrow> 0 \<le> available_seats g"
        by (simp_all add: seats_inv_def)
      with booked_update [of k ?t name fno "bookings s"] False show ?thesis
        by (simp add: bs)
    qed
    from refs bounds show ?thesis by (simp add: seats_inv_def)
  qed
qed

lemma seats_inv_cancel_booking:
  assumes "seats_inv s"
  shows "\<exists>m fs bs. cancel_booking t (flights s) (bookings s) = Inr (m, fs, bs)
           \<and> seats_inv \<lparr>flights = fs, bookings = bs\<rparr>"
proof (cases "map_of (bookings s) t")
  case None
  with assms show ?thesis by (simp add: cancel_booking_def seats_inv_fields)
next
  case (Some b)
  then have "(t, b) \<in> set (bookings s)" by (rule map_of_SomeD)
  with assms obtain f where f: "map_of (flights s) (flight_no b) = Some f"
    by (fastforce simp: seats_inv_def)
  let ?fs = "AList.update (flight_no b) (f\<lparr>available_seats := available_seats f + 1\<rparr>) (flights s)"
  let ?bs = "AList.delete t (bookings s)"
  have eq: "cancel_booking t (flights s) (bookings s) = Inr (Booking_canceled, ?fs, ?bs)"
    by (simp add: cancel_booking_def Some f)
  have refs: "\<forall>tb \<in> set ?bs. map_of ?fs (flight_no (snd tb)) \<noteq> None"
  proof
    fix tb assume "tb \<in> set ?bs"
    with set_delete_subset [of t "bookings s"] have "tb \<in> set (bookings s)" by auto
    with assms show "map_of ?fs (flight_no (snd tb)) \<noteq> None"
      by (auto simp: seats_inv_def AList.update_conv')
  qed
  have bounds: "available_seats g + booked k ?bs \<le> seats g \<and> (0 \<le> seats g \<longrightarrow> 0 \<le> available_seats g)"
    if g: "map_of ?fs k = Some g" for k g
  proof (cases "k = flight_no b")
    case True
    with g have g': "g = f\<lparr>available_seats := available_seats f + 1\<rparr>"
      by (simp add: AList.update_conv')
    from assms f have "available_seats f + booked (flight_no b) (bookings s) \<le> seats f"
      and "0 \<le> seats f \<longrightarrow> 0 \<le> available_seats f"
      by (simp_all add: seats_inv_def)
    with booked_delete [OF Some, of "flight_no b"] True show ?thesis
      by (simp add: g')
  next
    case False
    with g have "map_of (flights s) k = Some g" by (simp add: AList.update_conv')
    with assms have "available_seats g + booked k (bookings s) \<le> seats g"
      and "0 \<le> seats g \<longrightarrow> 0 \<le> available_seats g"
      by (simp_all add: seats_inv_def)
    with booked_delete [OF Some, of k] False show ?thesis
      by simp
  qed
  from refs bounds have "seats_inv \<lparr>flights = ?fs, bookings = ?bs\<rparr>"
    by (simp add: seats_inv_def)
  with eq show ?thesis by blast
qed

lemma seats_inv_apply_operation:
  assumes "seats_inv s"
  shows "\<exists>s'. apply_operation op s = Inr s' \<and> seats_inv s'"
proof (cases op)
  case (Add_flight fno dest n p)
  with seats_inv_add_flight [OF assms] show ?thesis by simp
next
  case (Update_price fno p)
  with seats_inv_update_price [OF assms] show ?thesis by simp
next
  case (Book_ticket name fno)
  obtain m fs bs where "book_ticket name fno (flights s) (bookings s) = (m, fs, bs)"
    by (cases "book_ticket name fno (flights s) (bookings s)") auto
  with seats_inv_book_ticket [OF assms this] Book_ticket show ?thesis by simp
next
  case (Cancel_booking t)
  with seats_inv_cancel_booking [OF assms, of t] show ?thesis by auto
qed

lemma seats_inv_run:
  "seats_inv s \<Longrightarrow> \<exists>s'. run ops s = Inr s' \<and> seats_inv s'"
proof (induction ops arbitrary: s)
  case Nil
  then show ?case by simp
next
  case (Cons op ops)
  from seats_inv_apply_operation [OF Cons.prems, of op]
  obtain s1 where "apply_operation op s = Inr s1" and "seats_inv s1" by blast
  with Cons.IH [of s1] show ?case by simp
qed

text \<open>
  C1 (as amended). Starting from the empty stores, every sequence of add_flight,
  update_price, book_ticket and cancel_booking runs without an exception, and afterwards
  every flight of the store has \<open>available_seats \<le> seats\<close>, and
  \<open>0 \<le> available_seats\<close> whenever its \<open>seats\<close> is not negative.
\<close>

theorem seat_bounds_after_operations:
  "\<exists>s. run ops init = Inr s \<and>
     (\<forall>k f. map_of (flights s) k = Some f \<longrightarrow>
        available_seats f \<le> seats f \<and> (0 \<le> seats f \<longrightarrow> 0 \<le> available_seats f))"
proof -
  from seats_inv_run [OF seats_inv_init, of ops]
  obtain s where s: "run ops init = Inr s" and inv: "seats_inv s" by blast
  have "available_seats f \<le> seats f \<and> (0 \<le> seats f \<longrightarrow> 0 \<le> available_seats f)"
    if "map_of (flights s) k = Some f" for k f
  proof -
    from inv that have "available_seats f + booked k (bookings s) \<le> seats f"
      and "0 \<le> seats f \<longrightarrow> 0 \<le> available_seats f"
      by (simp_all add: seats_inv_def)
    moreover have "0 \<le> booked k (bookings s)" by (simp add: booked_def)
    ultimately show ?thesis by simp
  qed
  with s show ?thesis by blast
qed

theorem seat_bounds_after_operations_witness:
  "run [Add_flight ''AI101'' ''Delhi'' 3 (Fin 50), Book_ticket ''Alice'' ''AI101''] init
     = Inr \<lparr>flights = [(''AI101'', delhi 2)], bookings = [(1, ticket ''Alice'')]\<rparr>
   \<and> map_of [(''AI101'', delhi 2)] ''AI101'' = Some (delhi 2)
   \<and> available_seats (delhi 2) \<le> seats (delhi 2)
   \<and> 0 \<le> seats (delhi 2) \<and> 0 \<le> available_seats (delhi 2)"
  using seat_bounds_after_operations
    [of "[Add_flight ''AI101'' ''Delhi'' 3 (Fin 50), Book_ticket ''Alice'' ''AI101'']"]
  by (simp add: init_def add_flight_def book_ticket_def Let_def)

text \<open>
  C1 as stated fails: \<open>add_flight\<close> does not check the sign of \<open>seats\<close>
  (the menu passes \<open>int(input(...))\<close> on), so a flight added with -5 seats
  has -5 available seats.
\<close>

theorem seat_bounds_counterexample:
  "run [Add_flight ''AI999'' ''Delhi'' (- 5) (Fin 50)] init
     = Inr \<lparr>flights = [(''AI999'',
           \<lparr>destination = ''Delhi'', seats = - 5, available_seats = - 5, price = Fin 50\<rparr>)],
         bookings = []\<rparr>
   \<and> available_seats
        \<lparr>destination = ''Delhi'', seats = - 5, available_seats = - 5, price = Fin 50\<rparr> < 0"
  by (simp add: init_def add_flight_def)


section \<open>Airline system: ticket ids, booking and cancelling\<close>

text \<open>
  C3. When the flight exists and has available seats, \<open>book_ticket\<close> files the
  booking under the ticket id \<open>len(bookings) + 1\<close>. The id is not unique once
  bookings are deleted: after two bookings (ids 1 and 2) and the cancellation of ticket 1,
  the next booking is given id 2, under which a booking is still stored, and replaces it.
\<close>

theorem ticket_id_is_count_plus_one:
  "(map_of fs fno = Some f \<and> 0 < available_seats f \<longrightarrow>
      book_ticket name fno fs bs
        = (Ticket_booked (int (length bs) + 1) (price f),
           AList.update fno (f\<lparr>available_seats := available_seats f - 1\<rparr>) fs,
           AList.update (int (length bs) + 1)
             \<lparr>passenger_name = name, flight_no = fno\<rparr> bs))
   \<and> add_flight ''AI101'' ''Delhi'' 3 (Fin 50) []
        = (Flight_added ''AI101'' ''Delhi'' (Fin 50), [(''AI101'', delhi 3)])
   \<and> book_ticket ''Alice'' ''AI101'' [(''AI101'', delhi 3)] []
        = (Ticket_booked 1 (Fin 50), [(''AI101'', delhi 2)], [(1, ticket ''Alice'')])
   \<and> book_ticket ''Bob'' ''AI101'' [(''AI101'', delhi 2)] [(1, ticket ''Alice'')]
        = (Ticket_booked 2 (Fin 50), [(''AI101'', delhi 1)],
           [(1, ticket ''Alice''), (2, ticket ''Bob'')])
   \<and> cancel_booking 1 [(''AI101'', delhi 1)] [(1, ticket ''Alice''), (2, ticket ''Bob'')]
        = Inr (Booking_canceled, [(''AI101'', delhi 2)], [(2, ticket ''Bob'')])
   \<and> map_of [(2, ticket ''Bob'')] 2 = Some (ticket ''Bob'')
   \<and> book_ticket ''Carol'' ''AI101'' [(''AI101'', delhi 2)] [(2, ticket ''Bob'')]
        = (Ticket_booked 2 (Fin 50), [(''AI101'', delhi 1)], [(2, ticket ''Carol'')])"
  by (simp add: book_ticket_def add_flight_def cancel_booking_def Let_def)

theorem ticket_id_is_count_plus_one_witness:
  "map_of [(''AI101'', delhi 2)] ''AI101'' = Some (delhi 2) \<and> 0 < available_seats (delhi 2)
   \<and> book_ticket ''Bob'' ''AI101'' [(''AI101'', delhi 2)] [(1, ticket ''Alice'')]
        = (Ticket_booked 2 (Fin 50), [(''AI101'', delhi 1)],
           [(1, ticket ''Alice''), (2, ticket ''Bob'')])"
  using ticket_id_is_count_plus_one
    [of "[(''AI101'', delhi 2)]" "''AI101''" "delhi 2" "''Bob''" "[(1, ticket ''Alice'')]"]
  by simp

text \<open>
  C4. When \<open>book_ticket\<close> succeeds (it reports the ticket id \<open>tid\<close>), the
  flight has one available seat less and the booking is stored under \<open>tid\<close>;
  \<open>cancel_booking tid\<close> right after it succeeds, returns the flight store as it was
  before the booking (so the flight's \<open>available_seats\<close> has its old value), and
  no booking is stored under \<open>tid\<close> any more.
\<close>

theorem book_then_cancel:
  assumes "book_ticket name fno fs bs = (Ticket_booked tid p, fs', bs')"
  shows "(\<exists>f. map_of fs fno = Some f
            \<and> map_of fs' fno = Some (f\<lparr>available_seats := available_seats f - 1\<rparr>))
       \<and> map_of bs' tid = Some \<lparr>passenger_name = name, flight_no = fno\<rparr>
       \<and> cancel_booking tid fs' bs' = Inr (Booking_canceled, fs, AList.delete tid bs)
       \<and> map_of (AList.delete tid bs) tid = None"
proof -
  from assms obtain f where f: "map_of fs fno = Some f" and av: "\<not> available_seats f \<le> 0"
    by (auto simp: book_ticket_def split: option.splits if_splits)
  from assms f av have tid: "tid = int (length bs) + 1"
    and fl: "fs' = AList.update fno (f\<lparr>available_seats := available_seats f - 1\<rparr>) fs"
    and bk: "bs' = AList.update tid \<lparr>passenger_name = name, flight_no = fno\<rparr> bs"
    by (auto simp: book_ticket_def Let_def)
  have 1: "map_of fs' fno = Some (f\<lparr>available_seats := available_seats f - 1\<rparr>)"
    by (simp add: fl AList.update_conv')
  have 2: "map_of bs' tid = Some \<lparr>passenger_name = name, flight_no = fno\<rparr>"
    by (simp add: bk AList.update_conv')
  have 3: "AList.update fno f fs' = fs"
    by (simp add: fl AList.update_triv [OF f])
  have 4: "AList.delete tid bs' = AList.delete tid bs"
    by (simp add: bk AList.delete_update_same)
  have "cancel_booking tid fs' bs' = Inr (Booking_canceled, fs, AList.delete tid bs)"
    by (simp add: cancel_booking_def 1 2 3 4)
  moreover have "map_of (AList.delete tid bs) tid = None"
    by (simp add: AList.delete_conv')
  ultimately show ?thesis using f 1 2 by simp
qed

theorem book_then_cancel_witness:
  "book_ticket ''Alice'' ''AI101'' [(''AI101'', delhi 3)] []
     = (Ticket_booked 1 (Fin 50), [(''AI101'', delhi 2)], [(1, ticket ''Alice'')])
   \<and> cancel_booking 1 [(''AI101'', delhi 2)] [(1, ticket ''Alice'')]
     = Inr (Booking_canceled, [(''AI101'', delhi 3)], [])"
proof -
  have h: "book_ticket ''Alice'' ''AI101'' [(''AI101'', delhi 3)] []
     = (Ticket_booked 1 (Fin 50), [(''AI101'', delhi 2)], [(1, ticket ''Alice'')])"
    by (simp add: book_ticket_def)
  from book_then_cancel [OF h] h show ?thesis by simp
qed



section \<open>Health log: BMI\<close>

lemma floor_rat_numeral_div:
  "\<lfloor>(numeral a :: rat) / numeral b\<rfloor> = numeral a div numeral b"
  by (metis floor_divide_of_int_eq of_int_numeral)

lemma bitlen_values: "bitlen 1 = 1" "bitlen 3 = 2" "bitlen 22 = 5" "bitlen 70 = 7"
  by code_simp+

lemmas fl_eval = fl_def exponent_def pow2_def round_half_even_def Let_def
  floor_rat_numeral_div bitlen_values

text \<open>
  C9. \<open>calc_bmi(70, 175)\<close> (the integers are the floats 70.0 and 175.0 in every
  operation) returns the float that the literal \<open>22.86\<close> denotes; it is within 0.01
  of 70 / (1.75 * 1.75), and \<open>bmi_category\<close> of it is \<open>Normal\<close>.
\<close>

theorem calc_bmi_70_175:
  "calc_bmi (Fin 70) (Fin 175) = Inr (Fin (1608629491901399 / 70368744177664))
   \<and> fl (2286 / 100) = Fin (1608629491901399 / 70368744177664)
   \<and> \<bar>1608629491901399 / 70368744177664 - 70 / ((175 / 100) * (175 / 100))\<bar> \<le> (1 / 100 :: rat)
   \<and> bmi_category (Fin (1608629491901399 / 70368744177664)) = ''Normal''"
proof -
  have h_m: "fl (7 / 4) = Fin (7 / 4)"
    by (simp add: fl_eval)
  have sq: "fl (49 / 16) = Fin (49 / 16)"
    by (simp add: fl_eval)
  have quot: "fl (160 / 7) = Fin (6433713753386423 / 281474976710656)"
    by (simp add: fl_eval)
  have lit: "fl (2286 / 100) = Fin (1608629491901399 / 70368744177664)"
    by (simp add: fl_eval)
  have rnd: "round2 (Fin (6433713753386423 / 281474976710656))
               = Fin (1608629491901399 / 70368744177664)"
    using lit by (simp add: round2_def round_half_even_def Let_def floor_rat_numeral_div)
  have "calc_bmi (Fin 70) (Fin 175) = Inr (Fin (1608629491901399 / 70368744177664))"
    by (simp add: calc_bmi_def h_m sq quot rnd)
  moreover have "bmi_category (Fin (1608629491901399 / 70368744177664)) = ''Normal''"
    by (simp add: bmi_category_def)
  ultimately show ?thesis using lit by simp
qed




section \<open>Loan system: status and balance\<close>

lemma io_simps:
  "bind input f (l # ls) = f l ls"
  "bind (return x) f ins = f x ins"
  "bind (raise e) g ins = (ins, Inl e)"
  "bind input f [] = ([], Inl EOFError)"
  by (simp_all add: bind_def input_def return_def raise_def)

lemma convert_simps:
  "float_of x = Some v \<Longrightarrow> bind (bind input (convert float_of)) f (x # ins) = f v ins"
  "float_of x = None \<Longrightarrow> bind (bind input (convert float_of)) f (x # ins) = (ins, Inl ValueError)"
  by (simp_all add: bind_def input_def convert_def return_def raise_def)

text \<open>
  C8. \<open>approve_loan\<close> and \<open>reject_loan\<close> do not look at the current
  status: whatever it is, the row whose id the typed text equals gets the status
  \<open>Approved\<close>, respectively \<open>Rejected\<close>, and nothing else changes in it;
  the rows with another id and the customers stay as they are. (In the example a Rejected
  loan is approved.)
\<close>

theorem status_overwritten:
  assumes "n < length (loans d)" and "id_eq given (loan_id (loans d ! n))"
  shows "(\<exists>d'. approve_loan id_eq d (given # ins) = (ins, Inr (d', Loan_approved))
            \<and> customers d' = customers d \<and> length (loans d') = length (loans d)
            \<and> loans d' ! n = (loans d ! n)\<lparr>status := ''Approved''\<rparr>
            \<and> (\<forall>m < length (loans d).
                  \<not> id_eq given (loan_id (loans d ! m)) \<longrightarrow> loans d' ! m = loans d ! m))
       \<and> (\<exists>d'. reject_loan id_eq d (given # ins) = (ins, Inr (d', Loan_rejected))
            \<and> customers d' = customers d \<and> length (loans d') = length (loans d)
            \<and> loans d' ! n = (loans d ! n)\<lparr>status := ''Rejected''\<rparr>
            \<and> (\<forall>m < length (loans d).
                  \<not> id_eq given (loan_id (loans d ! m)) \<longrightarrow> loans d' ! m = loans d ! m))"
  using assms by (simp add: approve_loan_def reject_loan_def io_simps return_def)

theorem status_overwritten_witness:
  "(0::nat) < length (loans \<lparr>customers = [], loans = [loan1 ''Rejected'' (Some (Fin 100))]\<rparr>)
   \<and> text_equals_id ''1'' 1
   \<and> approve_loan text_equals_id \<lparr>customers = [], loans = [loan1 ''Rejected'' (Some (Fin 100))]\<rparr> [''1'']
       = ([], Inr (\<lparr>customers = [], loans = [loan1 ''Approved'' (Some (Fin 100))]\<rparr>, Loan_approved))
   \<and> reject_loan text_equals_id \<lparr>customers = [], loans = [loan1 ''Approved'' (Some (Fin 100))]\<rparr> [''1'']
       = ([], Inr (\<lparr>customers = [], loans = [loan1 ''Rejected'' (Some (Fin 100))]\<rparr>, Loan_rejected))"
proof -
  have m: "text_equals_id ''1'' 1"
    by (simp add: text_equals_id_def sqlite_numeric_def unsign_def strip_def is_space_def
          decimal_def lower_def is_digit_def digits_value_def digit_value_def)
  have "(0::nat) < length (loans \<lparr>customers = [], loans = [loan1 ''Rejected'' (Some (Fin 100))]\<rparr>)"
    by simp
  from status_overwritten [OF this, of text_equals_id "''1''" "[]"] m
  have "approve_loan text_equals_id \<lparr>customers = [], loans = [loan1 ''Rejected'' (Some (Fin 100))]\<rparr> [''1'']
       = ([], Inr (\<lparr>customers = [], loans = [loan1 ''Approved'' (Some (Fin 100))]\<rparr>, Loan_approved))"
    by (auto simp: approve_loan_def io_simps return_def)
  moreover have "reject_loan text_equals_id \<lparr>customers = [], loans = [loan1 ''Approved'' (Some (Fin 100))]\<rparr> [''1'']
       = ([], Inr (\<lparr>customers = [], loans = [loan1 ''Rejected'' (Some (Fin 100))]\<rparr>, Loan_rejected))"
    using m by (simp add: reject_loan_def io_simps return_def)
  ultimately show ?thesis using m by simp
qed

lemma not_flt_zero: "x \<noteq> NaN \<Longrightarrow> flt x (Fin 0) \<longleftrightarrow> \<not> fle (Fin 0) x"
  by (cases x) auto

lemma py_float_nan: "py_float ''nan'' = Some NaN"
  by (simp add: py_float_def unsign_def strip_def is_space_def lower_def)

lemma py_float_150: "py_float ''150'' = Some (Fin 150)"
proof -
  have "bitlen 150 = 8" by code_simp
  then show ?thesis
    by (simp add: py_float_def unsign_def strip_def is_space_def decimal_def lower_def
          is_digit_def digits_value_def digit_value_def fl_eval)
qed

lemma text_equals_id_1: "text_equals_id ''1'' 1"
  by (simp add: text_equals_id_def sqlite_numeric_def unsign_def strip_def is_space_def
        decimal_def lower_def is_digit_def digits_value_def digit_value_def)

text \<open>
  C7 (as amended). For a loan found by its id with the balance \<open>b\<close> and a payment
  \<open>p\<close> such that \<open>b - p\<close> is not NaN, \<open>repay_loan\<close> stores
  \<open>b - p\<close> if \<open>b - p \<ge> 0\<close> and 0 otherwise; the stored balance is not
  negative, and no status and no customer changes.
\<close>

theorem repay_loan_balance:
  assumes "float_of x = Some p"
    and "find (\<lambda>l. id_eq given (loan_id l)) (loans d) = Some l"
    and "balance l = Some b"
    and "fsub b p \<noteq> NaN"
  shows "\<exists>d' nb. repay_loan float_of id_eq d (given # x # ins)
                    = (ins, Inr (d', Payment_successful nb))
           \<and> nb = (if fle (Fin 0) (fsub b p) then fsub b p else Fin 0)
           \<and> \<not> flt nb (Fin 0)
           \<and> loans d' = map (\<lambda>r. if id_eq given (loan_id r) then r\<lparr>balance := Some nb\<rparr> else r)
                            (loans d)
           \<and> map status (loans d') = map status (loans d)
           \<and> customers d' = customers d"
proof -
  let ?nb = "if fle (Fin 0) (fsub b p) then fsub b p else Fin 0"
  have nb: "(if flt (fsub b p) (Fin 0) then Fin 0 else fsub b p) = ?nb"
    using assms(4) by (simp add: not_flt_zero)
  have nn: "?nb \<noteq> NaN" using assms(4) by simp
  then have sq: "sql_real ?nb = Some ?nb" by (simp add: sql_real_def)
  have pos: "\<not> flt ?nb (Fin 0)" using assms(4) by (simp add: not_flt_zero)
  let ?d' = "d\<lparr>loans := map (\<lambda>r. if id_eq given (loan_id r) then r\<lparr>balance := Some ?nb\<rparr> else r)
                            (loans d)\<rparr>"
  have "repay_loan float_of id_eq d (given # x # ins) = (ins, Inr (?d', Payment_successful ?nb))"
    unfolding repay_loan_def
    using assms(1) by (simp add: io_simps convert_simps assms(2,3) Let_def nb sq return_def)
  moreover have "map status (loans ?d') = map status (loans d)"
    by (simp add: comp_def if_distrib cong: if_cong)
  ultimately show ?thesis using pos by auto
qed

theorem repay_loan_balance_witness:
  "py_float ''150'' = Some (Fin 150)
   \<and> find (\<lambda>l. text_equals_id ''1'' (loan_id l)) [loan1 ''Approved'' (Some (Fin 100))]
       = Some (loan1 ''Approved'' (Some (Fin 100)))
   \<and> fsub (Fin 100) (Fin 150) = Fin (- 50)
   \<and> repay_loan py_float text_equals_id
         \<lparr>customers = [], loans = [loan1 ''Approved'' (Some (Fin 100))]\<rparr> [''1'', ''150'']
       = ([], Inr (\<lparr>customers = [], loans = [loan1 ''Approved'' (Some (Fin 0))]\<rparr>,
                   Payment_successful (Fin 0)))"
proof -
  let ?l = "loan1 ''Approved'' (Some (Fin 100))"
  let ?d = "\<lparr>customers = [], loans = [?l]\<rparr>"
  have "bitlen 50 = 6" by code_simp
  then have sub: "fsub (Fin 100) (Fin 150) = Fin (- 50)"
    by (simp add: fl_eval)
  have f: "find (\<lambda>l. text_equals_id ''1'' (loan_id l)) (loans ?d) = Some ?l"
    by (simp add: text_equals_id_1)
  have b: "balance ?l = Some (Fin 100)" by simp
  have n: "fsub (Fin 100) (Fin 150) \<noteq> NaN" by (subst sub) simp
  from repay_loan_balance [where float_of = py_float and x = "''150''" and id_eq = text_equals_id
      and given = "''1''" and d = ?d and ins = "[]", OF py_float_150 f b n]
  have "repay_loan py_float text_equals_id ?d [''1'', ''150'']
       = ([], Inr (\<lparr>customers = [], loans = [loan1 ''Approved'' (Some (Fin 0))]\<rparr>,
                   Payment_successful (Fin 0)))"
    unfolding sub by (auto simp: text_equals_id_1)
  with py_float_150 f sub show ?thesis by simp
qed

text \<open>
  C7 as stated fails for the payment \<open>nan\<close>, which \<open>float\<close> accepts:
  \<open>b - p\<close> is NaN, which is neither \<open>\<ge> 0\<close> nor \<open>< 0\<close>, so the
  balance is not floored to 0; NaN is written, which the database keeps as \<open>NULL\<close>.
\<close>

theorem repay_loan_nan_counterexample:
  "py_float ''nan'' = Some NaN
   \<and> \<not> fle (Fin 0) (fsub (Fin 100) NaN)
   \<and> repay_loan py_float text_equals_id
         \<lparr>customers = [], loans = [loan1 ''Approved'' (Some (Fin 100))]\<rparr> [''1'', ''nan'']
       = ([], Inr (\<lparr>customers = [], loans = [loan1 ''Approved'' None]\<rparr>,
                   Payment_successful NaN))
   \<and> balance (loan1 ''Approved'' None) \<noteq> Some (Fin 0)"
  by (simp add: repay_loan_def io_simps convert_simps py_float_nan text_equals_id_1
        Let_def sql_real_def return_def)


section \<open>Invalid input at the prompts\<close>


















section \<open>Rounding to binary64\<close>

text \<open>
  \<open>exponent\<close> gives the binade of a positive number, so \<open>fl\<close> can be
  computed from bounds by powers of two; a positive number below half of the least
  subnormal rounds to zero.
\<close>

lemma exponent_bounds:
  assumes "0 < a"
  shows "pow2 (exponent a) \<le> a \<and> a < pow2 (exponent a + 1)"
proof (cases "1 \<le> a")
  case True
  define n where "n = \<lfloor>a\<rfloor>"
  have n1: "1 \<le> n" using True by (simp add: n_def)
  then have n0: "0 < n" by simp
  from bitlen_bounds [OF n0]
  have lo: "2 ^ nat (bitlen n - 1) \<le> n" and hi: "n < 2 ^ nat (bitlen n)" by simp_all
  have k1: "1 \<le> bitlen n"
    using n0 bitlen_eq_zero_iff [of n] bitlen_nonneg [of n] by linarith
  have e: "exponent a = bitlen n - 1" using True by (simp add: exponent_def n_def)
  have "pow2 (bitlen n - 1) = of_int (2 ^ nat (bitlen n - 1))"
    using k1 by (simp add: pow2_def)
  also have "\<dots> \<le> of_int n" using lo by (simp only: of_int_le_iff)
  also have "\<dots> \<le> a" by (simp add: n_def)
  finally have 1: "pow2 (exponent a) \<le> a" by (simp add: e)
  have "n + 1 \<le> 2 ^ nat (bitlen n)" using hi by simp
  then have "(of_int (n + 1) :: rat) \<le> of_int (2 ^ nat (bitlen n))"
    by (simp only: of_int_le_iff)
  moreover have "a < of_int (n + 1)" using floor_correct [of a] by (simp add: n_def)
  moreover have "pow2 (bitlen n - 1 + 1) = of_int (2 ^ nat (bitlen n))"
    using k1 by (simp add: pow2_def)
  ultimately have 2: "a < pow2 (exponent a + 1)" by (simp add: e)
  from 1 2 show ?thesis ..
next
  case False
  define b where "b = 1 / a"
  define c where "c = \<lceil>b\<rceil> - 1"
  have a1: "a < 1" using False by simp
  have b1: "1 < b" using assms a1 by (simp add: b_def)
  have b0: "0 < b" using b1 by simp
  have ba: "1 / b = a" by (simp add: b_def)
  have "1 < \<lceil>b\<rceil>" using b1 by (simp add: less_ceiling_iff)
  then have c1: "1 \<le> c" by (simp add: c_def)
  then have c0: "0 < c" by simp
  have cb: "of_int c < b" using ceiling_correct [of b] by (simp add: c_def)
  have bc: "b \<le> of_int (c + 1)" by (simp add: c_def le_of_int_ceiling)
  from bitlen_bounds [OF c0]
  have lo: "2 ^ nat (bitlen c - 1) \<le> c" and hi: "c < 2 ^ nat (bitlen c)" by simp_all
  have k1: "1 \<le> bitlen c"
    using c0 bitlen_eq_zero_iff [of c] bitlen_nonneg [of c] by linarith
  have e: "exponent a = - bitlen c" using False by (simp add: exponent_def c_def b_def)
  have p: "pow2 (- bitlen c) = 1 / 2 ^ nat (bitlen c)"
    using k1 by (simp add: pow2_def)
  have q: "pow2 (1 - bitlen c) = 1 / 2 ^ nat (bitlen c - 1)"
    using k1 by (cases "bitlen c = 1") (simp_all add: pow2_def algebra_simps)
  have "c + 1 \<le> 2 ^ nat (bitlen c)" using hi by simp
  then have "(of_int (c + 1) :: rat) \<le> of_int (2 ^ nat (bitlen c))"
    by (simp only: of_int_le_iff)
  with bc have "b \<le> 2 ^ nat (bitlen c)" by simp
  then have "1 / 2 ^ nat (bitlen c) \<le> 1 / b"
    using b0 by (simp add: frac_le)
  then have 1: "pow2 (exponent a) \<le> a" by (simp add: e p ba)
  have "(of_int (2 ^ nat (bitlen c - 1)) :: rat) \<le> of_int c"
    using lo by (simp only: of_int_le_iff)
  then have "(2 ^ nat (bitlen c - 1) :: rat) \<le> of_int c" by simp
  from this cb have "2 ^ nat (bitlen c - 1) < b" by (rule le_less_trans)
  then have "1 / b < 1 / 2 ^ nat (bitlen c - 1)"
    by (simp add: frac_less2)
  then have 2: "a < pow2 (exponent a + 1)" by (simp add: e q ba)
  from 1 2 show ?thesis ..
qed

lemma pow2_powi: "pow2 e = 2 powi e"
  by (simp add: pow2_def power_int_def power_one_over)

lemma pow2_mono: "e \<le> e' \<Longrightarrow> pow2 e \<le> pow2 e'"
  by (simp add: pow2_powi power_int_increasing)

lemma pow2_pos: "0 < pow2 e"
  by (simp add: pow2_def)

lemma exponent_eqI:
  assumes "0 < a" and "pow2 e \<le> a" and "a < pow2 (e + 1)"
  shows "exponent a = e"
proof (rule ccontr)
  assume ne: "exponent a \<noteq> e"
  from exponent_bounds [OF assms(1)]
  have lo: "pow2 (exponent a) \<le> a" and hi: "a < pow2 (exponent a + 1)" by simp_all
  show False
  proof (cases "exponent a < e")
    case True
    then have "pow2 (exponent a + 1) \<le> pow2 e" by (intro pow2_mono) simp
    with hi assms(2) show False by simp
  next
    case False
    with ne have "pow2 (e + 1) \<le> pow2 (exponent a)" by (intro pow2_mono) simp
    with lo assms(3) show False by simp
  qed
qed

lemma fl_underflow:
  assumes "0 < x" and "x < pow2 (- 1075)"
  shows "fl x = Fin 0"
proof -
  have "exponent x \<le> - 1022"
  proof (rule ccontr)
    assume "\<not> exponent x \<le> - 1022"
    then have "pow2 (- 1075) \<le> pow2 (exponent x)" by (intro pow2_mono) simp
    with exponent_bounds [OF assms(1)] assms(2) show False by simp
  qed
  then have ulp: "pow2 (max (exponent \<bar>x\<bar>) (- 1022) - 52) = pow2 (- 1074)"
    using assms(1) by (simp add: max_def)
  have half: "pow2 (- 1075) = pow2 (- 1074) / 2" by (simp add: pow2_def)
  define y where "y = x / pow2 (- 1074)"
  have q: "0 < y" "y < 1 / 2"
    using assms half pow2_pos [of "- 1074"] by (simp_all add: y_def field_simps)
  have "\<lfloor>y\<rfloor> = 0"
  proof (rule floor_unique)
    show "of_int 0 \<le> y" using q(1) by simp
    show "y < of_int 0 + 1" using q(2) by simp
  qed
  with q have "round_half_even y = 0"
    by (simp add: round_half_even_def Let_def)
  then have "round_half_even (x / pow2 (- 1074)) = 0" by (simp add: y_def)
  with assms(1) ulp pow2_pos [of 1024] show ?thesis
    by (simp add: fl_def Let_def)
qed

lemma fl_normal:
  assumes "0 < x" and "pow2 e \<le> x" and "x < pow2 (e + 1)" and "- 1022 \<le> e"
    and "round_half_even (x / pow2 (e - 52)) = m"
    and "of_int m * pow2 (e - 52) < pow2 1024"
  shows "fl x = Fin (of_int m * pow2 (e - 52))"
proof -
  have "exponent x = e" using assms(1-3) by (rule exponent_eqI)
  with assms(1,4) have "pow2 (max (exponent \<bar>x\<bar>) (- 1022) - 52) = pow2 (e - 52)"
    by (simp add: max_def)
  with assms(1,5,6) show ?thesis
    by (simp add: fl_def Let_def)
qed


section \<open>Health log: a height whose square underflows\<close>

text \<open>
  The guard of \<open>calc_bmi\<close> lets every positive height pass. For the height typed
  as \<open>1e-200\<close>, \<open>h_m * h_m\<close> underflows to 0.0, and the division raises
  \<open>ZeroDivisionError\<close>, which nothing in \<open>add_entry_interactive\<close> or
  \<open>main_menu\<close> catches; no row is written.
\<close>

lemma py_float_1e_200: "py_float ''1e-200'' = Some (Fin (1723641332219371 / 2 ^ 715))"
proof -
  have "decimal ''1e-200'' = Some (1 / 10 ^ 200)"
    by (simp add: decimal_def lower_def is_digit_def digits_value_def digit_value_def
          unsign_def Let_def)
  moreover have "fl (1 / 10 ^ 200) = Fin (of_int 6894565328877484 * pow2 (- 665 - 52))"
    by (rule fl_normal)
       (simp_all add: pow2_def round_half_even_def Let_def floor_rat_numeral_div)
  ultimately show ?thesis
    by (simp add: py_float_def unsign_def strip_def is_space_def lower_def pow2_def)
qed

lemma tiny_height_h_m:
  "fdiv (Fin (1723641332219371 / 2 ^ 715)) (Fin 100) = Inr (Fin (2206260905240795 / 2 ^ 722))"
proof -
  have "fl (1723641332219371 / 2 ^ 715 / 100)
          = Fin (of_int 8825043620963180 * pow2 (- 672 - 52))"
    by (rule fl_normal)
       (simp_all add: pow2_def round_half_even_def Let_def floor_rat_numeral_div)
  then show ?thesis by (simp add: pow2_def)
qed

lemma tiny_height_square:
  "fmul (Fin (2206260905240795 / 2 ^ 722)) (Fin (2206260905240795 / 2 ^ 722)) = Fin 0"
proof -
  have "fl (2206260905240795 / 2 ^ 722 * (2206260905240795 / 2 ^ 722)) = Fin 0"
    by (rule fl_underflow) (simp_all add: pow2_def)
  then show ?thesis by simp
qed

lemma calc_bmi_tiny_height:
  "calc_bmi w (Fin (1723641332219371 / 2 ^ 715)) = Inl ZeroDivisionError"
  using tiny_height_h_m tiny_height_square
  by (simp add: calc_bmi_def del: fdiv.simps fmul.simps) simp

lemma py_float_70: "py_float ''70'' = Some (Fin 70)"
  by (simp add: py_float_def unsign_def strip_def is_space_def decimal_def lower_def
        is_digit_def digits_value_def digit_value_def fl_eval)

lemma add_entry_raises:
  assumes "to_float_or_none float_of (weight_in a) = Some w"
    and "to_float_or_none float_of (height_in a) = Some h"
    and "calc_bmi w h = Inl e"
  shows "add_entry_interactive int_of float_of today a rows = Inl e"
  using assms by (simp add: add_entry_interactive_def Let_def)

lemma add_entry_tiny_height:
  "add_entry_interactive py_int py_float today
     \<lparr>date_in = d, age_in = ag, sex_in = sx, weight_in = ''70'', height_in = ''1e-200'',
        temp_in = t, hr_in = hr, bp_sys_in = bs, bp_dia_in = bd, bg_in = bg, notes_in = nt\<rparr>
     rows
   = Inl ZeroDivisionError"
proof (rule add_entry_raises)
  show "to_float_or_none py_float (weight_in
     \<lparr>date_in = d, age_in = ag, sex_in = sx, weight_in = ''70'', height_in = ''1e-200'',
        temp_in = t, hr_in = hr, bp_sys_in = bs, bp_dia_in = bd, bg_in = bg, notes_in = nt\<rparr>)
     = Some (Fin 70)"
    by (simp add: to_float_or_none_def py_float_70)
  show "to_float_or_none py_float (height_in
     \<lparr>date_in = d, age_in = ag, sex_in = sx, weight_in = ''70'', height_in = ''1e-200'',
        temp_in = t, hr_in = hr, bp_sys_in = bs, bp_dia_in = bd, bg_in = bg, notes_in = nt\<rparr>)
     = Some (Fin (1723641332219371 / 2 ^ 715))"
    using py_float_1e_200 by (simp add: to_float_or_none_def)
  show "calc_bmi (Fin 70) (Fin (1723641332219371 / 2 ^ 715)) = Inl ZeroDivisionError"
    by (rule calc_bmi_tiny_height)
qed


section \<open>Invalid input in the three programs\<close>












end
